theory Spec2Isabelle
  imports Main
begin

section \<open>Python strings and the standard-library functions the client calls\<close>

text \<open>
  A Python \<open>str\<close> is modelled by the bytes of its UTF-8 encoding, which is what
  \<open>urllib.parse.quote\<close> works on; concatenation, \<open>join\<close>, \<open>rstrip("/")\<close> and the test
  for the empty string agree on both views. A \<open>str\<close> holding a lone surrogate, which
  has no UTF-8 encoding, is outside the model.
\<close>

definition always_safe :: string where
  \<comment> \<open>\<open>urllib.parse._ALWAYS_SAFE\<close>: the unreserved characters of RFC 3986\<close>
  "always_safe =
     ''ABCDEFGHIJKLMNOPQRSTUVWXYZabcdefghijklmnopqrstuvwxyz0123456789_.-~''"


definition hexdigits :: string where
  "hexdigits = ''0123456789ABCDEF''"

definition percent :: "char \<Rightarrow> string" where
  \<comment> \<open>\<open>'%{:02X}'.format(b)\<close>\<close>
  "percent c =
     [CHR ''%'', hexdigits ! ((of_char c :: nat) div 16), hexdigits ! ((of_char c :: nat) mod 16)]"

definition quoter :: "string \<Rightarrow> char \<Rightarrow> string" where
  \<comment> \<open>\<open>_Quoter.__missing__\<close>: a safe byte stands for itself, any other is escaped\<close>
  "quoter safe c = (if c \<in> set (always_safe @ safe) then [c] else percent c)"

definition quote :: "string \<Rightarrow> string \<Rightarrow> string" where
  \<comment> \<open>\<open>urllib.parse.quote(string, safe)\<close> on the UTF-8 bytes of \<open>string\<close>\<close>
  "quote string safe = concat (map (quoter safe) string)"

definition quote_default :: "string \<Rightarrow> string" where
  \<comment> \<open>\<open>urllib.parse.quote(string)\<close>: the parameter \<open>safe\<close> defaults to \<open>'/'\<close>\<close>
  "quote_default string = quote string ''/''"

fun join :: "string \<Rightarrow> string list \<Rightarrow> string" where
  \<comment> \<open>\<open>sep.join(xs)\<close>\<close>
  "join sep [] = []"
| "join sep [x] = x"
| "join sep (x # y # ys) = x @ sep @ join sep (y # ys)"

definition lower_char :: "char \<Rightarrow> char" where
  "lower_char c =
     (if (65::nat) \<le> of_char c \<and> (of_char c :: nat) \<le> 90
      then char_of ((of_char c :: nat) + 32) else c)"

definition lower :: "string \<Rightarrow> string" where
  \<comment> \<open>\<open>str.lower()\<close> on ASCII text, the only text the client applies it to\<close>
  "lower s = map lower_char s"

fun rstrip_slash_rev :: "string \<Rightarrow> string" where
  "rstrip_slash_rev [] = []"
| "rstrip_slash_rev (c # cs) = (if c = CHR ''/'' then rstrip_slash_rev cs else c # cs)"

definition rstrip_slash :: "string \<Rightarrow> string" where
  \<comment> \<open>\<open>s.rstrip("/")\<close>\<close>
  "rstrip_slash s = rev (rstrip_slash_rev (rev s))"

definition digit_char :: "nat \<Rightarrow> char" where
  "digit_char n = char_of (48 + n)"

fun digits_nat :: "nat \<Rightarrow> string" where
  "digits_nat n = (if n < 10 then [digit_char n] else digits_nat (n div 10) @ [digit_char (n mod 10)])"

declare digits_nat.simps [simp del]

definition str_int :: "int \<Rightarrow> string" where
  \<comment> \<open>\<open>str(i)\<close> of a Python \<open>int\<close>\<close>
  "str_int i = (if i < 0 then CHR ''-'' # digits_nat (nat (- i)) else digits_nat (nat i))"

section \<open>Query parameters\<close>

text \<open>
  The values a params mapping holds: \<open>None\<close>, a \<open>bool\<close>, an \<open>int\<close>, a \<open>float\<close>, a \<open>str\<close>,
  or a list of these. A \<open>float\<close> is carried as the text \<open>repr\<close> gives it (no arithmetic
  is done on it). A \<open>dict\<close> is the list of its items in insertion order.
\<close>

datatype scalar = SNone | SBool bool | SInt int | SFloat string | SStr string

datatype pval = Scalar scalar | PList "scalar list"

type_synonym params = "(string \<times> pval) list"

fun py_str :: "scalar \<Rightarrow> string" where
  \<comment> \<open>\<open>str(v)\<close>\<close>
  "py_str SNone = ''None''"
| "py_str (SBool b) = (if b then ''True'' else ''False'')"
| "py_str (SInt i) = str_int i"
| "py_str (SFloat r) = r"
| "py_str (SStr s) = s"

section \<open>The transport: building the URL\<close>

record RateLimitInfo =
  remaining :: int
  limit :: int

record HttpClient =
  api_key :: string
  base_url :: string
  rate_limit :: "RateLimitInfo option"

definition HttpClient_init :: "string \<Rightarrow> string \<Rightarrow> HttpClient" where
  \<comment> \<open>\<open>HttpClient.__init__\<close>\<close>
  "HttpClient_init key url =
     \<lparr>api_key = key, base_url = rstrip_slash url, rate_limit = None\<rparr>"

fun build_parts :: "params \<Rightarrow> string list \<Rightarrow> string list" where
  \<comment> \<open>the loop of \<open>_build_url\<close> over \<open>params.items()\<close>, appending to \<open>parts\<close>\<close>
  "build_parts [] parts = parts"
| "build_parts ((key, Scalar SNone) # rest) parts = build_parts rest parts"
| "build_parts ((key, Scalar (SBool b)) # rest) parts =
     build_parts rest (parts @ [quote_default key @ ''='' @ lower (py_str (SBool b))])"
| "build_parts ((key, PList value) # rest) parts =
     build_parts rest
       (parts @ [quote_default key @ ''='' @ join '','' (map (\<lambda>v. quote (py_str v) []) value)])"
| "build_parts ((key, Scalar value) # rest) parts =
     build_parts rest (parts @ [quote_default key @ ''='' @ quote (py_str value) []])"

definition build_url :: "HttpClient \<Rightarrow> string \<Rightarrow> params option \<Rightarrow> string" where
  \<comment> \<open>\<open>HttpClient._build_url\<close>; \<open>not params\<close> holds of \<open>None\<close> and of the empty dict\<close>
  "build_url self path params =
     (let url = base_url self @ path in
      case params of
        None \<Rightarrow> url
      | Some kvs \<Rightarrow>
          if kvs = [] then url
          else
            let parts = build_parts kvs [] in
            if parts \<noteq> [] then url @ ''?'' @ join ''&'' parts else url)"

subsection \<open>The query string in the words of the specification\<close>



section \<open>Resource wrappers\<close>

text \<open>
  Every resource method ends in \<open>self._http.get(path, params)\<close>; its model is the pair
  of arguments it passes (\<open>None\<close> for \<open>params\<close> where the method passes none). The
  keyword arguments of a method are its parameters in the order of the signature.
\<close>

definition encode :: "string \<Rightarrow> string" where
  \<comment> \<open>\<open>_encode\<close>\<close>
  "encode segment = quote segment []"

definition stores_search ::
  "pval \<Rightarrow> pval \<Rightarrow> pval \<Rightarrow> pval \<Rightarrow> pval \<Rightarrow> pval \<Rightarrow> pval \<Rightarrow> pval \<Rightarrow> pval \<Rightarrow> pval \<Rightarrow> pval
     \<Rightarrow> string \<times> params option" where
  "stores_search keyword page per_page sort' platform language currency biz_model has_ads
       status min_traffic =
     (''/stores'',
      Some [(''keyword'', keyword), (''page'', page), (''per_page'', per_page), (''sort'', sort'),
            (''platform'', platform), (''language'', language), (''currency'', currency),
            (''biz_model'', biz_model), (''has_ads'', has_ads), (''status'', status),
            (''min_traffic'', min_traffic)])"

definition stores_get :: "string \<Rightarrow> string \<times> params option" where
  "stores_get domain = (''/stores/'' @ encode domain, None)"

definition stores_get_products :: "string \<Rightarrow> pval \<Rightarrow> pval \<Rightarrow> pval \<Rightarrow> string \<times> params option" where
  "stores_get_products domain page per_page sort' =
     (''/stores/'' @ encode domain @ ''/products'',
      Some [(''page'', page), (''per_page'', per_page), (''sort'', sort')])"

definition stores_get_ads :: "string \<Rightarrow> string \<times> params option" where
  "stores_get_ads domain = (''/stores/'' @ encode domain @ ''/ads'', None)"

definition stores_get_traffic :: "string \<Rightarrow> string \<times> params option" where
  "stores_get_traffic domain = (''/stores/'' @ encode domain @ ''/traffic'', None)"

definition stores_get_tech :: "string \<Rightarrow> string \<times> params option" where
  "stores_get_tech domain = (''/stores/'' @ encode domain @ ''/tech'', None)"

definition stores_compare :: "string list \<Rightarrow> string \<times> params option" where
  "stores_compare domains = (''/stores/compare'', Some [(''domains'', PList (map SStr domains))])"

definition products_search ::
  "pval \<Rightarrow> pval \<Rightarrow> pval \<Rightarrow> pval \<Rightarrow> pval \<Rightarrow> pval \<Rightarrow> pval \<Rightarrow> string \<times> params option" where
  "products_search keyword page per_page sort' min_price max_price currency =
     (''/products'',
      Some [(''keyword'', keyword), (''page'', page), (''per_page'', per_page), (''sort'', sort'),
            (''min_price'', min_price), (''max_price'', max_price), (''currency'', currency)])"

definition products_get :: "string \<Rightarrow> string \<times> params option" where
  "products_get ident = (''/products/'' @ encode ident, None)"

definition products_trending :: "pval \<Rightarrow> pval \<Rightarrow> pval \<Rightarrow> string \<times> params option" where
  "products_trending page per_page category =
     (''/products/trending'',
      Some [(''page'', page), (''per_page'', per_page), (''category'', category)])"

definition ads_search ::
  "pval \<Rightarrow> pval \<Rightarrow> pval \<Rightarrow> pval \<Rightarrow> pval \<Rightarrow> pval \<Rightarrow> string \<times> params option" where
  "ads_search keyword page per_page sort' platform store_domain =
     (''/ads'',
      Some [(''keyword'', keyword), (''page'', page), (''per_page'', per_page), (''sort'', sort'),
            (''platform'', platform), (''store_domain'', store_domain)])"

definition ads_get :: "string \<Rightarrow> string \<times> params option" where
  "ads_get ident = (''/ads/'' @ encode ident, None)"

definition suppliers_search ::
  "pval \<Rightarrow> pval \<Rightarrow> pval \<Rightarrow> pval \<Rightarrow> pval \<Rightarrow> pval \<Rightarrow> string \<times> params option" where
  "suppliers_search keyword page per_page sort' location type' =
     (''/suppliers'',
      Some [(''keyword'', keyword), (''page'', page), (''per_page'', per_page), (''sort'', sort'),
            (''location'', location), (''type'', type')])"

definition niches_get :: "string \<Rightarrow> string \<times> params option" where
  "niches_get keyword = (''/niches/'' @ encode keyword, None)"

definition cart_trending :: "pval \<Rightarrow> pval \<Rightarrow> pval \<Rightarrow> string \<times> params option" where
  \<comment> \<open>\<open>Cart.trending\<close>\<close>
  "cart_trending page per_page category =
     (''/trending'', Some [(''page'', page), (''per_page'', per_page), (''category'', category)])"

definition cart_account :: "string \<times> params option" where
  \<comment> \<open>\<open>Cart.account\<close>\<close>
  "cart_account = (''/account'', None)"

section \<open>Responses, JSON values and exceptions\<close>

text \<open>
  A value built by \<open>json.loads\<close>: \<open>None\<close>, a \<open>bool\<close>, an \<open>int\<close>, a \<open>float\<close> (carried as
  the text \<open>repr\<close> gives it), a \<open>str\<close>, a list, or a dict. A dict is an association
  list read from the front: the first entry for a key is the value of the dict there.
\<close>

datatype json =
    JNull
  | JBool bool
  | JInt int
  | JFloat string
  | JStr string
  | JList "json list"
  | JDict "(string \<times> json) list"

fun truthy :: "json \<Rightarrow> bool" where
  \<comment> \<open>\<open>bool(v)\<close>, the test of \<open>if v:\<close>\<close>
  "truthy JNull = False"
| "truthy (JBool b) = b"
| "truthy (JInt i) = (i \<noteq> 0)"
| "truthy (JFloat r) = (r \<noteq> ''0.0'' \<and> r \<noteq> ''-0.0'')"
| "truthy (JStr s) = (s \<noteq> [])"
| "truthy (JList xs) = (xs \<noteq> [])"
| "truthy (JDict kvs) = (kvs \<noteq> [])"

text \<open>
  The bytes of a response body are not modelled. A response carries what
  \<open>json.loads(resp.read().decode("utf-8"))\<close> does on them: the bytes are not UTF-8
  (\<open>decode\<close> raises \<open>UnicodeDecodeError\<close>), the text is not JSON (\<open>json.loads\<close> raises
  \<open>JSONDecodeError\<close>), or the value parsed.
\<close>

datatype body = Undecodable | NotJson | Json json

record response =
  resp_status :: int
  resp_headers :: "(string \<times> string) list"
  resp_body :: body

record api_error =
  message :: json
  status :: int
  code :: json
  request_id :: json

record rate_limit_error = api_error +
  retry_after :: "int option"
  error_rate_limit :: "int option"
  error_rate_limit_remaining :: "int option"

datatype value_error = Message string | InvalidLiteral string

datatype exn =
    ValueError value_error
  | UnicodeDecodeError
  | JSONDecodeError
  | AttributeError
  | URLError
  | CartApiError api_error
  | CartAuthError api_error
  | CartRateLimitError rate_limit_error

text \<open>
  Python's \<open>ValueError\<close> is raised in two places: by the client itself, with a message
  (\<open>Message\<close>), and by \<open>int(s)\<close> on a text that is no integer (\<open>InvalidLiteral s\<close>). The
  fields of an error hold whatever the body held, so they are JSON values, \<open>JNull\<close>
  being \<open>None\<close>.
\<close>

datatype 'a outcome = Returns 'a | Raises exn

fun bind :: "'a outcome \<Rightarrow> ('a \<Rightarrow> 'b outcome) \<Rightarrow> 'b outcome" where
  "bind (Returns x) f = f x"
| "bind (Raises e) f = Raises e"

definition CartApiError_init :: "json \<Rightarrow> int \<Rightarrow> json \<Rightarrow> json \<Rightarrow> api_error" where
  "CartApiError_init msg st cd rid = \<lparr>message = msg, status = st, code = cd, request_id = rid\<rparr>"

definition CartAuthError_init :: "json \<Rightarrow> json \<Rightarrow> api_error" where
  "CartAuthError_init msg rid = CartApiError_init msg 401 (JStr ''auth_error'') rid"

definition CartRateLimitError_init ::
  "json \<Rightarrow> json \<Rightarrow> int option \<Rightarrow> int option \<Rightarrow> int option \<Rightarrow> rate_limit_error" where
  "CartRateLimitError_init msg rid after lim rem =
     api_error.extend (CartApiError_init msg 429 (JStr ''rate_limit_exceeded'') rid)
       (rate_limit_error.fields after lim rem)"

subsection \<open>Headers and \<open>int()\<close>\<close>

definition headers_get :: "(string \<times> string) list \<Rightarrow> string \<Rightarrow> string option" where
  \<comment> \<open>\<open>headers.get(name)\<close> of \<open>email.message.Message\<close>: the first header whose name
      matches without regard to case\<close>
  "headers_get hs name = map_of (map (\<lambda>(k, v). (lower k, v)) hs) (lower name)"

definition is_space :: "char \<Rightarrow> bool" where
  "is_space c =
     (c \<in> set [CHR 0x09, CHR 0x0A, CHR 0x0B, CHR 0x0C, CHR 0x0D,
               CHR 0x1C, CHR 0x1D, CHR 0x1E, CHR 0x1F, CHR 0x20])"

definition strip :: "string \<Rightarrow> string" where
  "strip s = rev (dropWhile is_space (rev (dropWhile is_space s)))"

definition is_digit :: "char \<Rightarrow> bool" where
  "is_digit c = (c \<in> set ''0123456789'')"

definition digit_val :: "char \<Rightarrow> nat" where
  "digit_val c = of_char c - 48"

fun digits_value :: "nat \<Rightarrow> string \<Rightarrow> nat option" where
  \<comment> \<open>the rest of a decimal literal after a digit: digits, single underscores between them\<close>
  "digits_value acc [] = Some acc"
| "digits_value acc [c] = (if is_digit c then Some (acc * 10 + digit_val c) else None)"
| "digits_value acc (c # d # ds) =
     (if is_digit c then digits_value (acc * 10 + digit_val c) (d # ds)
      else if c = CHR ''_'' \<and> is_digit d then digits_value (acc * 10 + digit_val d) ds
      else None)"

definition decimal :: "string \<Rightarrow> nat option" where
  "decimal s =
     (case s of [] \<Rightarrow> None | c # cs \<Rightarrow> if is_digit c then digits_value (digit_val c) cs else None)"

definition py_int :: "string \<Rightarrow> int option" where
  \<comment> \<open>\<open>int(text)\<close> on ASCII text, \<open>None\<close> for \<open>ValueError\<close>: white space around, a sign,
      decimal digits; more than 4300 digits are refused (CPython's default limit)\<close>
  "py_int text =
     (let s = strip text;
          neg = (s \<noteq> [] \<and> hd s = CHR ''-'');
          ds = (if s \<noteq> [] \<and> (hd s = CHR ''-'' \<or> hd s = CHR ''+'') then tl s else s)
      in if length (filter is_digit ds) > 4300 then None
         else case decimal ds of
                None \<Rightarrow> None
              | Some n \<Rightarrow> Some (if neg then - int n else int n))"

section \<open>The transport: reading a response\<close>

definition parse_rate_limit_headers :: "HttpClient \<Rightarrow> response \<Rightarrow> unit outcome \<times> HttpClient" where
  \<comment> \<open>\<open>HttpClient._parse_rate_limit_headers\<close>: the outcome, and the client after it\<close>
  "parse_rate_limit_headers self resp =
     (let remaining' = headers_get (resp_headers resp) ''X-RateLimit-Remaining'';
          limit' = headers_get (resp_headers resp) ''X-RateLimit-Limit''
      in case (remaining', limit') of
           (Some r, Some l) \<Rightarrow>
             (case py_int r of
                None \<Rightarrow> (Raises (ValueError (InvalidLiteral r)), self)
              | Some a \<Rightarrow>
                  (case py_int l of
                     None \<Rightarrow> (Raises (ValueError (InvalidLiteral l)), self)
                   | Some b \<Rightarrow>
                       (Returns (), self\<lparr>rate_limit := Some \<lparr>remaining = a, limit = b\<rparr>\<rparr>)))
         | _ \<Rightarrow> (Returns (), self))"

definition json_loads :: "body \<Rightarrow> json outcome" where
  \<comment> \<open>\<open>json.loads(resp.read().decode("utf-8"))\<close>\<close>
  "json_loads b =
     (case b of
        Undecodable \<Rightarrow> Raises UnicodeDecodeError
      | NotJson \<Rightarrow> Raises JSONDecodeError
      | Json v \<Rightarrow> Returns v)"

definition dict_get :: "json \<Rightarrow> string \<Rightarrow> json \<Rightarrow> json outcome" where
  \<comment> \<open>\<open>obj.get(key, default)\<close>: only a dict has the method\<close>
  "dict_get obj key dflt =
     (case obj of
        JDict kvs \<Rightarrow> Returns (case map_of kvs key of None \<Rightarrow> dflt | Some v \<Rightarrow> v)
      | _ \<Rightarrow> Raises AttributeError)"

definition read_error_body :: "body \<Rightarrow> json \<Rightarrow> json \<Rightarrow> json \<Rightarrow> (json \<times> json \<times> json) outcome" where
  \<comment> \<open>the \<open>try\<close> block of \<open>_handle_error_response\<close>: \<open>code\<close>, \<open>message\<close> and \<open>request_id\<close>
      after it. The three \<open>get\<close> calls are on one object, so either all assign or the
      first raises.\<close>
  "read_error_body b code' message' request_id' =
     bind (json_loads b) (\<lambda>body.
     bind (dict_get body ''error'' (JDict [])) (\<lambda>error.
       if truthy error then
         bind (dict_get error ''code'' code') (\<lambda>code''.
         bind (dict_get error ''message'' message') (\<lambda>message''.
         bind (dict_get error ''request_id'' JNull) (\<lambda>request_id''.
           Returns (code'', message'', request_id''))))
       else Returns (code', message', request_id')))"

definition try_read_error_body ::
  "body \<Rightarrow> json \<Rightarrow> json \<Rightarrow> json \<Rightarrow> (json \<times> json \<times> json) outcome" where
  \<comment> \<open>the \<open>try\<close> statement: \<open>except (json.JSONDecodeError, AttributeError): pass\<close> keeps the
      values from before the block; any other exception goes on\<close>
  "try_read_error_body b code' message' request_id' =
     (case read_error_body b code' message' request_id' of
        Returns v \<Rightarrow> Returns v
      | Raises JSONDecodeError \<Rightarrow> Returns (code', message', request_id')
      | Raises AttributeError \<Rightarrow> Returns (code', message', request_id')
      | Raises e \<Rightarrow> Raises e)"

definition handle_error_response :: "HttpClient \<Rightarrow> response \<Rightarrow> exn" where
  \<comment> \<open>\<open>HttpClient._handle_error_response\<close>, which never returns: the exception raised\<close>
  "handle_error_response self exc =
     (let status' = resp_status exc;
          code' = JStr ''unknown_error'';
          message' = JStr (''Cart API error: '' @ str_int status');
          request_id' = JNull
      in case try_read_error_body (resp_body exc) code' message' request_id' of
           Raises e \<Rightarrow> e
         | Returns (code'', message'', request_id'') \<Rightarrow>
             if status' = 401 then CartAuthError (CartAuthError_init message'' request_id'')
             else if status' = 429 then
               (let retry_after_header = headers_get (resp_headers exc) ''Retry-After'' in
                case (case retry_after_header of
                        None \<Rightarrow> Returns None
                      | Some h \<Rightarrow>
                          if h \<noteq> [] then
                            (case py_int h of
                               None \<Rightarrow> Raises (ValueError (InvalidLiteral h))
                             | Some n \<Rightarrow> Returns (Some n))
                          else Returns None) of
                  Raises e \<Rightarrow> e
                | Returns retry_after' \<Rightarrow>
                    CartRateLimitError
                      (CartRateLimitError_init message'' request_id'' retry_after'
                         (case rate_limit self of Some info \<Rightarrow> Some (limit info) | None \<Rightarrow> None)
                         (case rate_limit self of Some info \<Rightarrow> Some (remaining info) | None \<Rightarrow> None)))
             else CartApiError (CartApiError_init message'' status' code'' request_id''))"

record ApiResponseMeta =
  meta_request_id :: json
  timestamp :: json
  page :: json
  total_pages :: json
  total_results :: json

record ApiResponseUsage =
  requests_today :: json
  usage_limit :: json

record ApiResponse =
  data :: json
  meta :: ApiResponseMeta
  usage :: ApiResponseUsage

definition parse_response :: "json \<Rightarrow> ApiResponse outcome" where
  \<comment> \<open>\<open>HttpClient._parse_response\<close>\<close>
  "parse_response body =
     bind (dict_get body ''meta'' (JDict [])) (\<lambda>raw_meta.
     bind (dict_get raw_meta ''request_id'' (JStr [])) (\<lambda>m1.
     bind (dict_get raw_meta ''timestamp'' (JStr [])) (\<lambda>m2.
     bind (dict_get raw_meta ''page'' (JInt 0)) (\<lambda>m3.
     bind (dict_get raw_meta ''total_pages'' (JInt 0)) (\<lambda>m4.
     bind (dict_get raw_meta ''total_results'' (JInt 0)) (\<lambda>m5.
     bind (dict_get body ''usage'' (JDict [])) (\<lambda>raw_usage.
     bind (dict_get raw_usage ''requests_today'' (JInt 0)) (\<lambda>u1.
     bind (dict_get raw_usage ''limit'' (JInt 0)) (\<lambda>u2.
     bind (dict_get body ''data'' JNull) (\<lambda>d.
       Returns \<lparr>data = d,
                meta = \<lparr>meta_request_id = m1, timestamp = m2, page = m3, total_pages = m4,
                        total_results = m5\<rparr>,
                usage = \<lparr>requests_today = u1, usage_limit = u2\<rparr>\<rparr>))))))))))"

section \<open>The transport: \<open>get\<close>\<close>

text \<open>
  What \<open>urllib.request.urlopen\<close> does is an input of \<open>get\<close>: it returns a response,
  raises \<open>HTTPError\<close> carrying the response (a status outside 2xx), or fails before any
  response (\<open>URLError\<close>). The network is the list of the requests issued so far.
\<close>

datatype urlopen_result = Response response | HTTPError response | NoResponse

record request =
  req_url :: string
  req_method :: string
  req_headers :: "(string \<times> string) list"

type_synonym network = "request list"

definition VERSION :: string where
  "VERSION = ''0.1.0''"

definition get ::
  "HttpClient \<Rightarrow> string \<Rightarrow> params option \<Rightarrow> urlopen_result \<Rightarrow> network
     \<Rightarrow> ApiResponse outcome \<times> HttpClient \<times> network" where
  \<comment> \<open>\<open>HttpClient.get\<close>: the outcome, the client and the network after the call\<close>
  "get self path params reply net =
     (let url = build_url self path params;
          req = \<lparr>req_url = url, req_method = ''GET'',
                 req_headers = [(''Authorization'', ''Bearer '' @ api_key self),
                                (''Accept'', ''application/json''),
                                (''User-Agent'', ''usecart-python/'' @ VERSION)]\<rparr>;
          net' = net @ [req]
      in case reply of
           Response resp \<Rightarrow>
             (case parse_rate_limit_headers self resp of
                (Raises e, self') \<Rightarrow> (Raises e, self', net')
              | (Returns _, self') \<Rightarrow>
                  (bind (json_loads (resp_body resp)) parse_response, self', net'))
         | HTTPError exc \<Rightarrow>
             (case parse_rate_limit_headers self exc of
                (Raises e, self') \<Rightarrow> (Raises e, self', net')
              | (Returns _, self') \<Rightarrow> (Raises (handle_error_response self' exc), self', net'))
         | NoResponse \<Rightarrow> (Raises URLError, self, net'))"

section \<open>The facade\<close>

record Cart =
  http :: HttpClient


definition api_key_required :: string where
  "api_key_required =
     ''An API key is required. Pass it as the first argument: Cart('' @ [CHR 0x27] @
     ''cart_sk_...'' @ [CHR 0x27] @ '')''"

definition Cart_init :: "string option \<Rightarrow> string \<Rightarrow> network \<Rightarrow> Cart outcome \<times> network" where
  \<comment> \<open>\<open>Cart.__init__\<close>; \<open>not api_key\<close> holds of \<open>None\<close> and of the empty string. The
      resource objects hold the one \<open>HttpClient\<close> of the facade.\<close>
  "Cart_init key url net =
     (case key of
        None \<Rightarrow> (Raises (ValueError (Message api_key_required)), net)
      | Some k \<Rightarrow>
          if k = [] then (Raises (ValueError (Message api_key_required)), net)
          else (Returns \<lparr>http = HttpClient_init k url\<rparr>, net))"

datatype call =
    StoresSearch pval pval pval pval pval pval pval pval pval pval pval
  | StoresGet string
  | StoresGetProducts string pval pval pval
  | StoresGetAds string
  | StoresGetTraffic string
  | StoresGetTech string
  | StoresCompare "string list"
  | ProductsSearch pval pval pval pval pval pval pval
  | ProductsGet string
  | ProductsTrending pval pval pval
  | AdsSearch pval pval pval pval pval pval
  | AdsGet string
  | SuppliersSearch pval pval pval pval pval pval
  | NichesGet string
  | Trending pval pval pval
  | Account

fun request_of :: "call \<Rightarrow> string \<times> params option" where
  "request_of (StoresSearch a b c d e f g h i j k) = stores_search a b c d e f g h i j k"
| "request_of (StoresGet d) = stores_get d"
| "request_of (StoresGetProducts d a b c) = stores_get_products d a b c"
| "request_of (StoresGetAds d) = stores_get_ads d"
| "request_of (StoresGetTraffic d) = stores_get_traffic d"
| "request_of (StoresGetTech d) = stores_get_tech d"
| "request_of (StoresCompare ds) = stores_compare ds"
| "request_of (ProductsSearch a b c d e f g) = products_search a b c d e f g"
| "request_of (ProductsGet i) = products_get i"
| "request_of (ProductsTrending a b c) = products_trending a b c"
| "request_of (AdsSearch a b c d e f) = ads_search a b c d e f"
| "request_of (AdsGet i) = ads_get i"
| "request_of (SuppliersSearch a b c d e f) = suppliers_search a b c d e f"
| "request_of (NichesGet k) = niches_get k"
| "request_of (Trending a b c) = cart_trending a b c"
| "request_of Account = cart_account"

definition invoke ::
  "Cart \<Rightarrow> call \<Rightarrow> urlopen_result \<Rightarrow> network \<Rightarrow> ApiResponse outcome \<times> Cart \<times> network" where
  \<comment> \<open>a method of the facade or of one of its resources, called on a client\<close>
  "invoke cart c reply net =
     (case get (http cart) (fst (request_of c)) (snd (request_of c)) reply net of
        (result, http', net') \<Rightarrow> (result, cart\<lparr>http := http'\<rparr>, net'))"

definition client_after :: "'a \<times> 'b \<times> 'c \<Rightarrow> 'b" where
  "client_after r = fst (snd r)"

definition network_after :: "'a \<times> 'b \<times> 'c \<Rightarrow> 'c" where
  "network_after r = snd (snd r)"

subsection \<open>The rate-limit snapshot and the error fields in the words of the specification\<close>


definition error_object :: "body \<Rightarrow> (string \<times> json) list" where
  \<comment> \<open>the \<open>error\<close> object of an error body; empty when the body is not JSON, is not an
      object, or holds no object under \<open>error\<close>\<close>
  "error_object b =
     (case b of
        Json (JDict kvs) \<Rightarrow> (case map_of kvs ''error'' of Some (JDict e) \<Rightarrow> e | _ \<Rightarrow> [])
      | _ \<Rightarrow> [])"

definition field_or :: "(string \<times> json) list \<Rightarrow> string \<Rightarrow> json \<Rightarrow> json" where
  "field_or obj key dflt = (case map_of obj key of None \<Rightarrow> dflt | Some v \<Rightarrow> v)"

subsection \<open>The envelope in the words of the specification\<close>

definition object_at :: "(string \<times> json) list \<Rightarrow> string \<Rightarrow> (string \<times> json) list option" where
  \<comment> \<open>the object under a key of a body: empty when the key is missing, none when the
      key holds a value that is not an object\<close>
  "object_at kvs key =
     (case map_of kvs key of
        None \<Rightarrow> Some []
      | Some (JDict m) \<Rightarrow> Some m
      | Some _ \<Rightarrow> None)"

definition envelope :: "ApiResponse \<Rightarrow> json" where
  \<comment> \<open>the body \<open>{data, meta: {...}, usage: {...}}\<close> that carries the fields of a record\<close>
  "envelope r =
     JDict [(''data'', data r),
            (''meta'', JDict [(''request_id'', meta_request_id (meta r)),
                              (''timestamp'', timestamp (meta r)),
                              (''page'', page (meta r)),
                              (''total_pages'', total_pages (meta r)),
                              (''total_results'', total_results (meta r))]),
            (''usage'', JDict [(''requests_today'', requests_today (usage r)),
                               (''limit'', usage_limit (usage r))])]"

subsection \<open>The fields of an error in the words of the specification\<close>

definition resolved_code :: "response \<Rightarrow> json" where
  \<comment> \<open>\<open>code\<close> of the error object, \<open>"unknown_error"\<close> without one\<close>
  "resolved_code exc = field_or (error_object (resp_body exc)) ''code'' (JStr ''unknown_error'')"

definition resolved_message :: "response \<Rightarrow> json" where
  \<comment> \<open>\<open>message\<close> of the error object, \<open>"Cart API error: <status>"\<close> without one\<close>
  "resolved_message exc =
     field_or (error_object (resp_body exc)) ''message''
       (JStr (''Cart API error: '' @ str_int (resp_status exc)))"

definition resolved_request_id :: "response \<Rightarrow> json" where
  \<comment> \<open>\<open>request_id\<close> of the error object, absent without one\<close>
  "resolved_request_id exc = field_or (error_object (resp_body exc)) ''request_id'' JNull"


section \<open>Percent-encoding\<close>














section \<open>The query string\<close>






section \<open>The rate-limit snapshot\<close>


lemma parse_rate_limit_headers_rest:
  "api_key (snd (parse_rate_limit_headers self resp)) = api_key self"
  "base_url (snd (parse_rate_limit_headers self resp)) = base_url self"
  by (simp_all add: parse_rate_limit_headers_def Let_def split: option.splits)

lemma get_client_after:
  "client_after (get self path params (Response resp) net) =
     snd (parse_rate_limit_headers self resp)"
  "client_after (get self path params (HTTPError resp) net) =
     snd (parse_rate_limit_headers self resp)"
  "client_after (get self path params NoResponse net) = self"
  by (simp_all add: get_def client_after_def Let_def split: prod.splits outcome.splits)




section \<open>Construction\<close>






lemma Cart_init_with_key:
  "k \<noteq> [] \<Longrightarrow> Cart_init (Some k) url net = (Returns \<lparr>http = HttpClient_init k url\<rparr>, net)"
  by (simp add: Cart_init_def)


section \<open>Determinism of request construction\<close>

lemma build_url_base:
  "base_url self = base_url self' \<Longrightarrow> build_url self path params = build_url self' path params"
  by (simp add: build_url_def)

lemma get_network_after:
  "network_after (get self path params reply net) =
     net @ [\<lparr>req_url = build_url self path params, req_method = ''GET'',
             req_headers = [(''Authorization'', ''Bearer '' @ api_key self),
                            (''Accept'', ''application/json''),
                            (''User-Agent'', ''usecart-python/'' @ VERSION)]\<rparr>]"
  by (cases reply)
    (simp_all add: get_def network_after_def Let_def split: prod.splits outcome.splits)

lemma get_base_url: "base_url (client_after (get self path params reply net)) = base_url self"
  by (cases reply) (simp_all add: get_client_after parse_rate_limit_headers_rest)

lemma invoke_network_after:
  "network_after (invoke cart c reply net) =
     network_after (get (http cart) (fst (request_of c)) (snd (request_of c)) reply net)"
  by (simp add: invoke_def network_after_def split: prod.splits)

lemma invoke_client_after:
  "http (client_after (invoke cart c reply net)) =
     client_after (get (http cart) (fst (request_of c)) (snd (request_of c)) reply net)"
  by (simp add: invoke_def client_after_def split: prod.splits)

text \<open>
  C9. The URL a method requests is a function of the method, its arguments and the base
  URL of the client: two clients with the same base URL, whatever their API keys, their
  cached rate limits, the requests issued before and the replies, request the same URL
  for the same call. Each call issues exactly one request, and no call changes the base
  URL, so a later invocation with the same arguments builds the same URL again.
\<close>

theorem request_construction_deterministic:
  "base_url (http cart) = base_url (http cart') \<Longrightarrow>
     req_url (last (network_after (invoke cart c reply net))) =
       req_url (last (network_after (invoke cart' c reply' net')))
     \<and> length (network_after (invoke cart c reply net)) = Suc (length net)
     \<and> base_url (http (client_after (invoke cart c reply net))) = base_url (http cart)
     \<and> req_url (last (network_after
          (invoke (client_after (invoke cart c reply net)) c reply'
             (network_after (invoke cart c reply net))))) =
       req_url (last (network_after (invoke cart c reply net)))"
proof -
  assume same: "base_url (http cart) = base_url (http cart')"
  have url: "req_url (last (network_after (invoke k c r n))) =
      build_url (http k) (fst (request_of c)) (snd (request_of c))" for k r n
    by (simp add: invoke_network_after get_network_after)
  have keep: "base_url (http (client_after (invoke cart c reply net))) = base_url (http cart)"
    by (simp add: invoke_client_after get_base_url)
  have len: "length (network_after (invoke cart c reply net)) = Suc (length net)"
    by (simp add: invoke_network_after get_network_after)
  from url keep len build_url_base [OF same] build_url_base [OF keep] show ?thesis
    by simp
qed

theorem request_construction_deterministic_witness:
  "req_url (last (network_after
      (invoke \<lparr>http = \<lparr>api_key = ''k1'', base_url = ''https://h'', rate_limit = None\<rparr>\<rparr>
         (StoresGet ''a.com'') NoResponse []))) =
   req_url (last (network_after
      (invoke \<lparr>http = \<lparr>api_key = ''k2'', base_url = ''https://h'',
                       rate_limit = Some \<lparr>remaining = 1, limit = 2\<rparr>\<rparr>\<rparr>
         (StoresGet ''a.com'')
         (HTTPError \<lparr>resp_status = 500, resp_headers = [], resp_body = NotJson\<rparr>)
         [\<lparr>req_url = ''https://h/account'', req_method = ''GET'', req_headers = []\<rparr>])))"
  using request_construction_deterministic
    [of "\<lparr>http = \<lparr>api_key = ''k1'', base_url = ''https://h'', rate_limit = None\<rparr>\<rparr>"
        "\<lparr>http = \<lparr>api_key = ''k2'', base_url = ''https://h'',
                  rate_limit = Some \<lparr>remaining = 1, limit = 2\<rparr>\<rparr>\<rparr>"
        "StoresGet ''a.com''" NoResponse "[]"
        "HTTPError \<lparr>resp_status = 500, resp_headers = [], resp_body = NotJson\<rparr>"
        "[\<lparr>req_url = ''https://h/account'', req_method = ''GET'', req_headers = []\<rparr>]"]
  by simp


section \<open>Error responses\<close>

lemma try_read_error_body_undecodable:
  "try_read_error_body Undecodable c m r = Raises UnicodeDecodeError"
  by (simp add: try_read_error_body_def read_error_body_def json_loads_def)

lemma try_read_error_body_not_json:
  "try_read_error_body NotJson c m r = Returns (c, m, r)"
  by (simp add: try_read_error_body_def read_error_body_def json_loads_def)

lemma read_error_body_json:
  "read_error_body (Json v) c m JNull = Raises AttributeError \<or>
   read_error_body (Json v) c m JNull =
     Returns (field_or (error_object (Json v)) ''code'' c,
              field_or (error_object (Json v)) ''message'' m,
              field_or (error_object (Json v)) ''request_id'' JNull)"
proof (cases v)
  case (JDict kvs)
  show ?thesis
  proof (cases "map_of kvs ''error''")
    case None
    with JDict show ?thesis
      by (simp add: read_error_body_def json_loads_def dict_get_def error_object_def field_or_def)
  next
    case (Some e)
    with JDict show ?thesis
      by (cases e)
        (auto simp: read_error_body_def json_loads_def dict_get_def error_object_def field_or_def)
  qed
qed (simp_all add: read_error_body_def json_loads_def dict_get_def)

lemma read_error_body_json_attr:
  "read_error_body (Json v) c m JNull = Raises AttributeError \<Longrightarrow> error_object (Json v) = []"
proof (cases v)
  case (JDict kvs)
  assume a: "read_error_body (Json v) c m JNull = Raises AttributeError"
  show ?thesis
  proof (cases "map_of kvs ''error''")
    case None
    with JDict show ?thesis by (simp add: error_object_def)
  next
    case (Some e)
    with JDict a show ?thesis
      by (cases e)
        (auto simp: read_error_body_def json_loads_def dict_get_def error_object_def
          split: if_splits)
  qed
qed (simp_all add: error_object_def)

lemma try_read_error_body_decoded:
  assumes "b \<noteq> Undecodable"
  shows "try_read_error_body b c m JNull =
     Returns (field_or (error_object b) ''code'' c,
              field_or (error_object b) ''message'' m,
              field_or (error_object b) ''request_id'' JNull)"
proof (cases b)
  case Undecodable
  with assms show ?thesis by simp
next
  case NotJson
  then show ?thesis
    by (simp add: try_read_error_body_not_json error_object_def field_or_def)
next
  case (Json v)
  from read_error_body_json [of v c m] show ?thesis
  proof
    assume a: "read_error_body (Json v) c m JNull = Raises AttributeError"
    from read_error_body_json_attr [OF a] a Json show ?thesis
      by (simp add: try_read_error_body_def field_or_def)
  next
    assume "read_error_body (Json v) c m JNull =
     Returns (field_or (error_object (Json v)) ''code'' c,
              field_or (error_object (Json v)) ''message'' m,
              field_or (error_object (Json v)) ''request_id'' JNull)"
    with Json show ?thesis by (simp add: try_read_error_body_def)
  qed
qed

lemma handle_error_response_undecodable:
  "resp_body exc = Undecodable \<Longrightarrow> handle_error_response self exc = UnicodeDecodeError"
  by (simp add: handle_error_response_def Let_def try_read_error_body_undecodable)

lemma handle_error_response_401:
  assumes "resp_status exc = 401" and "resp_body exc \<noteq> Undecodable"
  shows "handle_error_response self exc =
     CartAuthError \<lparr>message = resolved_message exc, status = 401, code = JStr ''auth_error'',
                    request_id = resolved_request_id exc\<rparr>"
  using assms
  by (simp add: handle_error_response_def Let_def try_read_error_body_decoded
      CartAuthError_init_def CartApiError_init_def resolved_message_def resolved_request_id_def)

lemma handle_error_response_other:
  assumes "resp_status exc \<noteq> 401" and "resp_status exc \<noteq> 429"
    and "resp_body exc \<noteq> Undecodable"
  shows "handle_error_response self exc =
     CartApiError \<lparr>message = resolved_message exc, status = resp_status exc,
                   code = resolved_code exc, request_id = resolved_request_id exc\<rparr>"
  using assms
  by (simp add: handle_error_response_def Let_def try_read_error_body_decoded
      CartApiError_init_def resolved_message_def resolved_request_id_def resolved_code_def)

lemma resolved_fallback:
  assumes "error_object (resp_body exc) = []"
  shows "resolved_code exc = JStr ''unknown_error''"
    and "resolved_message exc = JStr (''Cart API error: '' @ str_int (resp_status exc))"
    and "resolved_request_id exc = JNull"
  using assms
  by (simp_all add: resolved_code_def resolved_message_def resolved_request_id_def field_or_def)


lemma auth_error_scenario:
  "handle_error_response self
     \<lparr>resp_status = 401, resp_headers = hs,
      resp_body = Json (JDict [(''error'', JDict [(''code'', JStr ''invalid_key''),
                                                 (''message'', JStr ''bad key''),
                                                 (''request_id'', JStr ''req_1'')])])\<rparr> =
   CartAuthError \<lparr>message = JStr ''bad key'', status = 401, code = JStr ''auth_error'',
                  request_id = JStr ''req_1''\<rparr>"
  by (simp add: handle_error_response_401 resolved_message_def resolved_request_id_def
      error_object_def field_or_def)








text \<open>
  C4 says that every 401 response raises the auth error. The code departs from it when
  the body of the response is not UTF-8: \<open>decode\<close> raises \<open>UnicodeDecodeError\<close>, the
  \<open>except\<close> clause of \<open>_handle_error_response\<close> names only \<open>JSONDecodeError\<close> and
  \<open>AttributeError\<close>, and \<open>get\<close> ends in \<open>UnicodeDecodeError\<close>. (For every other 401
  the claim holds: \<open>handle_error_response_401\<close>, \<open>auth_error_scenario\<close>.)
\<close>

theorem auth_error_undecodable_body:
  "fst (get \<lparr>api_key = ''k'', base_url = ''https://api.usecart.com/v1'', rate_limit = None\<rparr>
          ''/account'' None
          (HTTPError \<lparr>resp_status = 401, resp_headers = [], resp_body = Undecodable\<rparr>) []) =
   Raises UnicodeDecodeError"
  by (simp add: get_def Let_def parse_rate_limit_headers_def headers_get_def
      handle_error_response_undecodable)

text \<open>
  C5 says that an error body that does not parse falls back to the default fields of
  the base error. The code departs from it when the body is not UTF-8: a 500 response
  with such a body ends in \<open>UnicodeDecodeError\<close>, not in the base error. (For every
  body that decodes the claim holds: \<open>handle_error_response_other\<close>,
  \<open>resolved_fallback\<close>.)
\<close>

theorem api_error_undecodable_body:
  "fst (get \<lparr>api_key = ''k'', base_url = ''https://api.usecart.com/v1'', rate_limit = None\<rparr>
          ''/account'' None
          (HTTPError \<lparr>resp_status = 500, resp_headers = [], resp_body = Undecodable\<rparr>) []) =
   Raises UnicodeDecodeError"
  by (simp add: get_def Let_def parse_rate_limit_headers_def headers_get_def
      handle_error_response_undecodable)


section \<open>Encoding of keys and values\<close>







section \<open>Successful bodies\<close>

lemma dict_get_field: "dict_get (JDict kvs) key d = Returns (field_or kvs key d)"
  by (simp add: dict_get_def field_or_def)

lemma field_or_object:
  "object_at kvs key = Some m \<Longrightarrow> field_or kvs key (JDict []) = JDict m"
  by (auto simp: object_at_def field_or_def split: option.splits json.splits)

lemma parse_response_object:
  assumes "object_at kvs ''meta'' = Some m" and "object_at kvs ''usage'' = Some u"
  shows "parse_response (JDict kvs) =
     Returns \<lparr>data = field_or kvs ''data'' JNull,
              meta = \<lparr>meta_request_id = field_or m ''request_id'' (JStr []),
                      timestamp = field_or m ''timestamp'' (JStr []),
                      page = field_or m ''page'' (JInt 0),
                      total_pages = field_or m ''total_pages'' (JInt 0),
                      total_results = field_or m ''total_results'' (JInt 0)\<rparr>,
              usage = \<lparr>requests_today = field_or u ''requests_today'' (JInt 0),
                       usage_limit = field_or u ''limit'' (JInt 0)\<rparr>\<rparr>"
  unfolding parse_response_def
  by (simp only: dict_get_field field_or_object [OF assms(1)] field_or_object [OF assms(2)]
      bind.simps)

lemma parse_response_envelope: "parse_response (envelope r) = Returns r"
  by (simp add: parse_response_def dict_get_def envelope_def)

text \<open>
  C8 as stated fails: a body that is not an object, or one that holds \<open>null\<close> under
  \<open>meta\<close>, makes \<open>_parse_response\<close> raise \<open>AttributeError\<close>; no record with the defaults
  is returned.
\<close>

theorem parse_response_not_object:
  "parse_response (JList []) = Raises AttributeError
   \<and> parse_response (JDict [(''meta'', JNull)]) = Raises AttributeError"
  by (simp add: parse_response_def dict_get_def)

text \<open>
  C8, amended. For every JSON body that is an object whose \<open>meta\<close> and \<open>usage\<close>
  members, where present, are objects, \<open>_parse_response\<close> returns a record in which
  every field of \<open>meta\<close> and \<open>usage\<close> present in the body is reproduced as it is, and
  every missing one (with a missing \<open>meta\<close> or \<open>usage\<close> counting as empty) is the
  default: the empty string for \<open>request_id\<close> and \<open>timestamp\<close>, zero for the others.
  Parsing the envelope of a record gives the record back.
\<close>

theorem parse_response_lossless:
  "(object_at kvs ''meta'' = Some m \<and> object_at kvs ''usage'' = Some u \<longrightarrow>
      parse_response (JDict kvs) =
        Returns \<lparr>data = field_or kvs ''data'' JNull,
                 meta = \<lparr>meta_request_id = field_or m ''request_id'' (JStr []),
                         timestamp = field_or m ''timestamp'' (JStr []),
                         page = field_or m ''page'' (JInt 0),
                         total_pages = field_or m ''total_pages'' (JInt 0),
                         total_results = field_or m ''total_results'' (JInt 0)\<rparr>,
                 usage = \<lparr>requests_today = field_or u ''requests_today'' (JInt 0),
                          usage_limit = field_or u ''limit'' (JInt 0)\<rparr>\<rparr>)
   \<and> (map_of m key = Some x \<longrightarrow> field_or m key d = x)
   \<and> (map_of m key = None \<longrightarrow> field_or m key d = d)
   \<and> (map_of kvs key = None \<longrightarrow> object_at kvs key = Some [])
   \<and> parse_response (envelope r) = Returns r"
  using parse_response_object [of kvs m u] parse_response_envelope [of r]
  by (simp add: field_or_def object_at_def)

theorem parse_response_lossless_witness:
  "parse_response (JDict [(''meta'', JDict [(''page'', JInt 2), (''request_id'', JStr ''req_9'')])]) =
     Returns \<lparr>data = JNull,
              meta = \<lparr>meta_request_id = JStr ''req_9'', timestamp = JStr [], page = JInt 2,
                      total_pages = JInt 0, total_results = JInt 0\<rparr>,
              usage = \<lparr>requests_today = JInt 0, usage_limit = JInt 0\<rparr>\<rparr>"
  using parse_response_lossless
    [of "[(''meta'', JDict [(''page'', JInt 2), (''request_id'', JStr ''req_9'')])]"
        "[(''page'', JInt 2), (''request_id'', JStr ''req_9'')]" "[]"]
  by (simp add: object_at_def field_or_def)


end
